theory Spec2Isabelle
  imports Complex_Main "HOL-Library.Multiset"
begin

section \<open>QuizWiz: the quiz page of script.js\<close>

text \<open>
  script.js keeps the quiz in three module variables (\<open>currentQuestionIndex\<close>,
  \<open>score\<close>, \<open>questions\<close>) and in three elements of the page (the question
  heading, the container of the answer buttons and the next button). The functions of
  the script are embedded as functions on a record holding exactly these: each takes the
  state and returns the state it leaves behind, together with the exception it raised,
  if any.
\<close>

subsection \<open>Data\<close>

text \<open>An answer \<open>{ text, correct }\<close> and a question \<open>{ question, answers }\<close>, as
  \<open>fetchQuestions\<close> builds them.\<close>

record quiz_answer =
  answer_text :: string
  correct :: bool

record quiz_question =
  question :: string
  answers :: "quiz_answer list"

text \<open>One record \<open>q\<close> of the \<open>results\<close> list in the body of the response, with
  the three fields the script reads.\<close>

record api_record =
  q_question :: string
  correct_answer :: string
  incorrect_answers :: "string list"

text \<open>
  A button of the page: the markup assigned to \<open>innerHTML\<close>, the tokens of its
  \<open>classList\<close>, the entry \<open>dataset.correct\<close> (absent, or a string) and the
  \<open>disabled\<close> flag.
\<close>

record button =
  innerHTML :: string
  classList :: "string list"
  dataset_correct :: "string option"
  disabled :: bool

text \<open>
  The exceptions the script can raise: the \<open>Error\<close> it constructs itself, the
  \<open>TypeError\<close> of reading a property of \<open>undefined\<close> (also what a rejected
  \<open>fetch\<close> raises), and the \<open>SyntaxError\<close> of \<open>response.json()\<close>.
\<close>

datatype error = Error string | TypeError | SyntaxError

text \<open>
  What the request comes back with: \<open>fetch\<close> rejects, or it resolves to a response
  with its \<open>ok\<close> flag and a body. The body is not JSON, or it is JSON whose
  \<open>results\<close> is (\<open>Some\<close>) a list of records or (\<open>None\<close>) nothing that has a
  \<open>map\<close> method.
\<close>

datatype body = NotJSON | Json "api_record list option"

datatype response = Rejected | Response bool body

record state =
  currentQuestionIndex :: int
  score :: int
  questions :: "quiz_question list"
  questionElement :: string
  answerButtons :: "button list"
  nextButton_innerHTML :: string
  nextButton_display :: string
  console :: "error list"
  alerts :: "string list"
  randomCalls :: nat
  fetchCalls :: nat

text \<open>The result of running a function of the script: it returns, or it throws; in
  both cases the state is the one at that moment.\<close>

datatype outcome = Normal state | Throws error state

fun state_of :: "outcome \<Rightarrow> state" where
  "state_of (Normal s) = s"
| "state_of (Throws e s) = s"

fun thrown :: "outcome \<Rightarrow> error option" where
  "thrown (Normal s) = None"
| "thrown (Throws e s) = Some e"

subsection \<open>Numbers in strings\<close>

text \<open>The decimal digits of a number, as string concatenation and the template literal
  of \<open>showScore\<close> produce them.\<close>

definition digit :: "nat \<Rightarrow> char" where
  "digit d = ''0123456789'' ! d"

function digits_of :: "nat \<Rightarrow> string" where
  "digits_of n = (if 10 \<le> n then digits_of (n div 10) @ [digit (n mod 10)] else [digit n])"
  by pat_completeness auto
termination
  by (relation "measure id") auto

declare digits_of.simps [simp del]

definition number_string :: "int \<Rightarrow> string" where
  "number_string x = (if 0 \<le> x then digits_of (nat x) else CHR ''-'' # digits_of (nat (- x)))"

subsection \<open>decodeHTML\<close>

text \<open>
  \<open>decodeHTML\<close> creates a \<open>textarea\<close>, assigns the string to its \<open>innerHTML\<close>
  and returns its \<open>value\<close>. What the value of a fresh textarea is after that
  assignment is decided by the browser's HTML parser, which is no part of the script:
  it is the parameter \<open>textarea\<close>.
\<close>

definition decodeHTML :: "(string \<Rightarrow> string) \<Rightarrow> string \<Rightarrow> string" where
  "decodeHTML textarea html = textarea html"

text \<open>
  Modelled from the spec: what a textarea reports as its \<open>value\<close> after a string is
  assigned to its \<open>innerHTML\<close>. That is the browser's HTML parser, which is not in
  the repository; the spec (4.1, Text Decoder) says of it: named and numeric character
  references become their literal characters, nothing else is interpreted, a string
  without references comes back unchanged, and a malformed reference passes through as
  literal text. The named references are the five the spec lists (\<open>&lt;\<close>,
  \<open>&gt;\<close>, \<open>&amp;\<close>, \<open>&quot;\<close>, \<open>&apos;\<close>); a numeric reference is
  \<open>&#\<close> with decimal digits or \<open>&#x\<close> with hexadecimal digits, closed by a
  semicolon, for a Unicode scalar value. Strings are byte strings here, so a character
  beyond ASCII is written in UTF-8.
\<close>

definition named_references :: "(string \<times> string) list" where
  "named_references =
     [(''lt;'', ''<''), (''gt;'', ''>''), (''amp;'', ''&''),
      (''quot;'', [CHR 0x22]), (''apos;'', [CHR 0x27])]"

text \<open>The literal text of the named reference a string starts with, and the number of
  characters the reference takes.\<close>

fun match_named :: "(string \<times> string) list \<Rightarrow> string \<Rightarrow> (string \<times> nat) option" where
  "match_named [] cs = None"
| "match_named ((name, literal) # table) cs =
     (if take (length name) cs = name then Some (literal, length name)
      else match_named table cs)"

fun position :: "char \<Rightarrow> string \<Rightarrow> nat option" where
  "position c [] = None"
| "position c (d # ds) = (if c = d then Some 0 else map_option Suc (position c ds))"

definition digit_value :: "nat \<Rightarrow> char \<Rightarrow> nat option" where
  "digit_value base c =
     (if base = 16
      then (case position c ''0123456789abcdef'' of
              Some d \<Rightarrow> Some d
            | None \<Rightarrow> position c ''0123456789ABCDEF'')
      else position c ''0123456789'')"

fun leading_digits :: "nat \<Rightarrow> string \<Rightarrow> nat list" where
  "leading_digits base [] = []"
| "leading_digits base (c # cs) =
     (case digit_value base c of
        None \<Rightarrow> []
      | Some d \<Rightarrow> d # leading_digits base cs)"

definition number_of :: "nat \<Rightarrow> nat list \<Rightarrow> nat" where
  "number_of base ds = foldl (\<lambda>n d. n * base + d) 0 ds"

definition utf8 :: "nat \<Rightarrow> string" where
  "utf8 n =
     (if n < 0x80 then [char_of n]
      else if n < 0x800 then [char_of (0xC0 + n div 0x40), char_of (0x80 + n mod 0x40)]
      else if n < 0x10000
        then [char_of (0xE0 + n div 0x1000), char_of (0x80 + n div 0x40 mod 0x40),
              char_of (0x80 + n mod 0x40)]
      else [char_of (0xF0 + n div 0x40000), char_of (0x80 + n div 0x1000 mod 0x40),
            char_of (0x80 + n div 0x40 mod 0x40), char_of (0x80 + n mod 0x40)])"

definition scalar_value :: "nat \<Rightarrow> bool" where
  "scalar_value n \<longleftrightarrow> 0 < n \<and> n \<le> 0x10FFFF \<and> (n < 0xD800 \<or> 0xDFFF < n)"

text \<open>A numeric reference: digits, then a semicolon; \<open>before\<close> counts the characters
  between the ampersand and the digits.\<close>

definition numeric_reference :: "nat \<Rightarrow> nat \<Rightarrow> string \<Rightarrow> (string \<times> nat) option" where
  "numeric_reference base before cs =
     (let ds = leading_digits base cs; n = number_of base ds
      in if ds \<noteq> [] \<and> take 1 (drop (length ds) cs) = '';'' \<and> scalar_value n
         then Some (utf8 n, before + length ds + 1)
         else None)"

text \<open>The reference that starts right after an ampersand, if there is one.\<close>

definition reference :: "string \<Rightarrow> (string \<times> nat) option" where
  "reference cs =
     (if take 2 cs = ''#x'' \<or> take 2 cs = ''#X'' then numeric_reference 16 2 (drop 2 cs)
      else if take 1 cs = ''#'' then numeric_reference 10 1 (drop 1 cs)
      else match_named named_references cs)"

text \<open>The decoded text; \<open>n\<close> is the number of characters still to skip because they
  belong to the reference just decoded.\<close>

fun decode_from :: "nat \<Rightarrow> string \<Rightarrow> string" where
  "decode_from n [] = []"
| "decode_from n (c # cs) =
     (if 0 < n then decode_from (n - 1) cs
      else if c = CHR ''&''
      then (case reference cs of
              Some (literal, consumed) \<Rightarrow> literal @ decode_from consumed cs
            | None \<Rightarrow> c # decode_from 0 cs)
      else c # decode_from 0 cs)"

definition textarea_value :: "string \<Rightarrow> string" where
  "textarea_value html = decode_from 0 html"


subsection \<open>shuffleArray\<close>

text \<open>
  \<open>Math.random()\<close> returns a number \<open>r\<close> with \<open>0 \<le> r < 1\<close>; the type
  \<open>draw\<close> holds exactly these. The sequence of values the calls return is a function
  \<open>rnd\<close> of the number of calls made before.
\<close>

typedef draw = "{r :: real. 0 \<le> r \<and> r < 1}"
  by (rule exI [of _ 0]) simp

text \<open>\<open>Math.floor(Math.random() * (i + 1))\<close>, the product taken in the reals
  (floating-point rounding is not modelled).\<close>

definition random_index :: "draw \<Rightarrow> int \<Rightarrow> int" where
  "random_index r i = \<lfloor>Rep_draw r * of_int (i + 1)\<rfloor>"

text \<open>
  \<open>[array[i], array[j]] = [array[j], array[i]]\<close>: both elements are read, then
  \<open>array[i]\<close> is written, then \<open>array[j]\<close>. The loop only calls it with
  \<open>0 \<le> j \<le> i < array.length\<close> (\<open>random_index_range\<close> below, and \<open>i\<close>
  starts at \<open>length - 1\<close>), so nothing is read or written outside the array.
\<close>

definition swap :: "'a list \<Rightarrow> int \<Rightarrow> int \<Rightarrow> 'a list" where
  "swap array i j = (array[nat i := array ! nat j])[nat j := array ! nat i]"

function shuffle_loop :: "(nat \<Rightarrow> draw) \<Rightarrow> int \<Rightarrow> nat \<Rightarrow> 'a list \<Rightarrow> 'a list \<times> nat" where
  "shuffle_loop rnd i k array =
     (if i > 0
      then let j = random_index (rnd k) i
           in shuffle_loop rnd (i - 1) (Suc k) (swap array i j)
      else (array, k))"
  by pat_completeness auto
termination
  by (relation "measure (\<lambda>(rnd, i, k, array). nat i)") auto

declare shuffle_loop.simps [simp del]

text \<open>The array after the loop, and the number of \<open>Math.random()\<close> calls made so
  far (\<open>k\<close> before the call).\<close>

definition shuffleArray :: "(nat \<Rightarrow> draw) \<Rightarrow> nat \<Rightarrow> 'a list \<Rightarrow> 'a list \<times> nat" where
  "shuffleArray rnd k array = shuffle_loop rnd (int (length array) - 1) k array"

subsection \<open>The page\<close>

text \<open>\<open>resetState\<close>: hide the next button, then remove the first child of the
  container as long as there is one.\<close>

fun remove_children :: "button list \<Rightarrow> button list" where
  "remove_children [] = []"
| "remove_children (b # bs) = remove_children bs"

definition resetState :: "state \<Rightarrow> state" where
  "resetState s =
     (let s1 = s\<lparr>nextButton_display := ''none''\<rparr>
      in s1\<lparr>answerButtons := remove_children (answerButtons s1)\<rparr>)"

text \<open>\<open>classList.add\<close>: a token list holds a token once.\<close>

definition add_class :: "string \<Rightarrow> button \<Rightarrow> button" where
  "add_class c b = (if c \<in> set (classList b) then b else b\<lparr>classList := classList b @ [c]\<rparr>)"

text \<open>The button \<open>showQuestion\<close> creates for one answer; \<open>dataset.correct\<close> is set
  only for a truthy \<open>answer.correct\<close>, and stores the string of the boolean.\<close>

definition answer_button :: "quiz_answer \<Rightarrow> button" where
  "answer_button a =
     (let b = \<lparr>innerHTML = answer_text a, classList = [], dataset_correct = None,
                disabled = False\<rparr>;
          b1 = add_class ''btn'' b
      in if correct a then b1\<lparr>dataset_correct := Some ''true''\<rparr> else b1)"

text \<open>\<open>questions[currentQuestionIndex]\<close>: \<open>undefined\<close> outside the array.\<close>

definition element_at :: "'a list \<Rightarrow> int \<Rightarrow> 'a option" where
  "element_at xs i = (if 0 \<le> i \<and> i < int (length xs) then Some (xs ! nat i) else None)"

definition showQuestion :: "state \<Rightarrow> outcome" where
  "showQuestion s =
     (let s1 = resetState s
      in case element_at (questions s1) (currentQuestionIndex s1) of
           None \<Rightarrow> Throws TypeError s1
         | Some currentQuestion \<Rightarrow>
             let questionNo = currentQuestionIndex s1 + 1;
                 s2 = s1\<lparr>questionElement :=
                           number_string questionNo @ ''. '' @ question currentQuestion\<rparr>
             in Normal (s2\<lparr>answerButtons :=
                              answerButtons s2 @ map answer_button (answers currentQuestion)\<rparr>))"

definition startQuiz :: "state \<Rightarrow> outcome" where
  "startQuiz s =
     showQuestion (s\<lparr>currentQuestionIndex := 0, score := 0, nextButton_innerHTML := ''Next''\<rparr>)"

text \<open>
  The target of the click event handed to \<open>selectAnswer\<close>: the \<open>i\<close>-th button of
  the container (the buttons \<open>showQuestion\<close> registers the listener on), or a button
  outside the page, as the script's own \<open>testSelectAnswer\<close> passes. An event whose
  target is no button at all has \<open>undefined\<close> where the script reads \<open>dataset\<close>.
\<close>

datatype target = Child nat | Detached button

definition lock_answers :: "state \<Rightarrow> state" where
  "lock_answers s =
     (let s1 = s\<lparr>answerButtons :=
                  map (\<lambda>b. (if dataset_correct b = Some ''true'' then add_class ''correct'' b else b)
                              \<lparr>disabled := True\<rparr>)
                      (answerButtons s)\<rparr>
      in s1\<lparr>nextButton_display := ''block''\<rparr>)"

text \<open>The button an event targets, and that button replaced by its updated copy.\<close>

fun event_target :: "target \<Rightarrow> state \<Rightarrow> button option" where
  "event_target (Child i) s =
     (if i < length (answerButtons s) then Some (answerButtons s ! i) else None)"
| "event_target (Detached b) s = Some b"

fun put_target :: "target \<Rightarrow> button \<Rightarrow> state \<Rightarrow> state" where
  "put_target (Child i) b s = s\<lparr>answerButtons := (answerButtons s)[i := b]\<rparr>"
| "put_target (Detached b0) b s = s"

definition selectAnswer :: "target \<Rightarrow> state \<Rightarrow> outcome" where
  "selectAnswer e s =
     (case event_target e s of
        None \<Rightarrow> Throws TypeError s
      | Some selectedBtn \<Rightarrow>
          let isCorrect = (dataset_correct selectedBtn = Some ''true'');
              s1 = (if isCorrect
                    then (put_target e (add_class ''correct'' selectedBtn) s)
                           \<lparr>score := score s + 1\<rparr>
                    else put_target e (add_class ''incorrect'' selectedBtn) s)
          in Normal (lock_answers s1))"

definition showScore :: "state \<Rightarrow> state" where
  "showScore s =
     (let s1 = resetState s
      in s1\<lparr>questionElement :=
               ''You scored '' @ number_string (score s1) @ '' out of ''
                 @ digits_of (length (questions s1)) @ ''!'',
             nextButton_innerHTML := ''Play Again'',
             nextButton_display := ''block''\<rparr>)"

definition handleNextButton :: "state \<Rightarrow> outcome" where
  "handleNextButton s =
     (let s1 = s\<lparr>currentQuestionIndex := currentQuestionIndex s + 1\<rparr>
      in if currentQuestionIndex s1 < int (length (questions s1))
         then showQuestion s1
         else Normal (showScore s1))"

subsection \<open>fetchQuestions\<close>

text \<open>The callback of \<open>data.results.map\<close>: one question of the quiz from one record,
  its answers shuffled.\<close>

definition make_question ::
  "(string \<Rightarrow> string) \<Rightarrow> (nat \<Rightarrow> draw) \<Rightarrow> nat \<Rightarrow> api_record \<Rightarrow> quiz_question \<times> nat" where
  "make_question textarea rnd k q =
     (let (shuffled, k') =
            shuffleArray rnd k
              (\<lparr>answer_text = decodeHTML textarea (correct_answer q), correct = True\<rparr>
               # map (\<lambda>ans. \<lparr>answer_text = decodeHTML textarea ans, correct = False\<rparr>)
                     (incorrect_answers q))
      in (\<lparr>question = decodeHTML textarea (q_question q), answers = shuffled\<rparr>, k'))"

fun map_results ::
  "(string \<Rightarrow> string) \<Rightarrow> (nat \<Rightarrow> draw) \<Rightarrow> nat \<Rightarrow> api_record list \<Rightarrow> quiz_question list \<times> nat" where
  "map_results textarea rnd k [] = ([], k)"
| "map_results textarea rnd k (q # qs) =
     (let (x, k1) = make_question textarea rnd k q;
          (xs, k2) = map_results textarea rnd k1 qs
      in (x # xs, k2))"

text \<open>
  \<open>fetchQuestions\<close> is asynchronous. Up to its first \<open>await\<close> it only issues the
  request (\<open>fetchQuestions_call\<close>, which counts the requests issued in
  \<open>fetchCalls\<close>); the rest runs when the request has come back
  (\<open>fetchQuestions\<close>, with the body of the \<open>try\<close> as \<open>fetchQuestions_try\<close>).
\<close>

definition fetchQuestions_call :: "state \<Rightarrow> state" where
  "fetchQuestions_call s = s\<lparr>fetchCalls := Suc (fetchCalls s)\<rparr>"

definition fetchQuestions_try ::
  "(string \<Rightarrow> string) \<Rightarrow> (nat \<Rightarrow> draw) \<Rightarrow> response \<Rightarrow> state \<Rightarrow> outcome" where
  "fetchQuestions_try textarea rnd r s =
     (case r of
        Rejected \<Rightarrow> Throws TypeError s
      | Response ok b \<Rightarrow>
          if \<not> ok then Throws (Error ''Failed to fetch questions.'') s
          else (case b of
                  NotJSON \<Rightarrow> Throws SyntaxError s
                | Json None \<Rightarrow> Throws TypeError s
                | Json (Some results) \<Rightarrow>
                    (let (qs, k) = map_results textarea rnd (randomCalls s) results
                     in startQuiz (s\<lparr>questions := qs, randomCalls := k\<rparr>))))"

definition fetchQuestions ::
  "(string \<Rightarrow> string) \<Rightarrow> (nat \<Rightarrow> draw) \<Rightarrow> response \<Rightarrow> state \<Rightarrow> state" where
  "fetchQuestions textarea rnd r s =
     (case fetchQuestions_try textarea rnd r s of
        Normal s' \<Rightarrow> s'
      | Throws e s' \<Rightarrow>
          s'\<lparr>console := console s' @ [e],
             alerts := alerts s' @ [''Could not load questions. Please try again later.'']\<rparr>)"

text \<open>The listener of the next button.\<close>

definition nextButton_click :: "state \<Rightarrow> outcome" where
  "nextButton_click s =
     (if currentQuestionIndex s < int (length (questions s))
      then handleNextButton s
      else Normal (fetchQuestions_call s))"

subsection \<open>The session as the page shows it\<close>

text \<open>
  The script has no variable for the phase of the quiz or for "the current question is
  answered"; both are read off the state. The quiz is in progress while the index
  points into \<open>questions\<close> (the test of the next button's listener), finished after
  that. A question is answered from the moment \<open>selectAnswer\<close> shows the next button
  (and disables the answer buttons) until \<open>resetState\<close> hides it again.
\<close>

definition in_progress :: "state \<Rightarrow> bool" where
  "in_progress s \<longleftrightarrow>
     0 \<le> currentQuestionIndex s \<and> currentQuestionIndex s < int (length (questions s))"

definition finished :: "state \<Rightarrow> bool" where
  "finished s \<longleftrightarrow> int (length (questions s)) \<le> currentQuestionIndex s"

definition answeredCurrent :: "state \<Rightarrow> bool" where
  "answeredCurrent s \<longleftrightarrow> nextButton_display s = ''block''"

definition locked :: "state \<Rightarrow> bool" where
  "locked s \<longleftrightarrow> list_all disabled (answerButtons s)"

definition exactly_one_correct :: "quiz_question \<Rightarrow> bool" where
  "exactly_one_correct q \<longleftrightarrow> length (filter correct (answers q)) = 1"

text \<open>
  The events of the page. The browser dispatches no click to a disabled button and the
  user cannot click an element whose \<open>display\<close> is \<open>none\<close>: that is what the
  script sets them for. A request settles with some response. An exception that leaves
  a listener ends that listener; the state stays as it was at the throw.
\<close>

definition click_answer :: "nat \<Rightarrow> state \<Rightarrow> outcome" where
  "click_answer i s =
     (case event_target (Child i) s of
        None \<Rightarrow> Normal s
      | Some b \<Rightarrow> if disabled b then Normal s else selectAnswer (Child i) s)"

definition click_next :: "state \<Rightarrow> outcome" where
  "click_next s = (if nextButton_display s = ''none'' then Normal s else nextButton_click s)"

datatype event = ClickAnswer nat | ClickNext | Settled response

fun dispatch :: "(string \<Rightarrow> string) \<Rightarrow> (nat \<Rightarrow> draw) \<Rightarrow> event \<Rightarrow> state \<Rightarrow> state" where
  "dispatch textarea rnd (ClickAnswer i) s = state_of (click_answer i s)"
| "dispatch textarea rnd ClickNext s = state_of (click_next s)"
| "dispatch textarea rnd (Settled r) s = fetchQuestions textarea rnd r s"

text \<open>The states of a session: a quiz started from a batch that was fetched, and
  whatever the events of the page make of it.\<close>

inductive reachable :: "(string \<Rightarrow> string) \<Rightarrow> (nat \<Rightarrow> draw) \<Rightarrow> state \<Rightarrow> bool"
  for textarea :: "string \<Rightarrow> string" and rnd :: "nat \<Rightarrow> draw" where
  started: "fetchQuestions_try textarea rnd r s0 = Normal s \<Longrightarrow> reachable textarea rnd s"
| step: "reachable textarea rnd s \<Longrightarrow> reachable textarea rnd (dispatch textarea rnd e s)"

text \<open>The responses on which the body of the \<open>try\<close> throws before it reaches the
  assignment to \<open>questions\<close>.\<close>

fun fetch_fails :: "response \<Rightarrow> bool" where
  "fetch_fails Rejected = True"
| "fetch_fails (Response ok NotJSON) = True"
| "fetch_fails (Response ok (Json None)) = True"
| "fetch_fails (Response ok (Json (Some results))) = (\<not> ok)"

text \<open>What holds of the counters in every state of a session (shown below).\<close>

definition session_inv :: "state \<Rightarrow> bool" where
  "session_inv s \<longleftrightarrow>
     0 \<le> currentQuestionIndex s \<and> currentQuestionIndex s \<le> int (length (questions s))
     \<and> 0 \<le> score s
     \<and> (nextButton_display s = ''none'' \<or> nextButton_display s = ''block'')
     \<and> (if in_progress s
         then (if answeredCurrent s then score s \<le> currentQuestionIndex s + 1 \<and> locked s
               else score s \<le> currentQuestionIndex s)
         else score s \<le> currentQuestionIndex s \<and> answerButtons s = [])"

subsection \<open>Sample data\<close>

definition blank_page :: state where
  "blank_page =
     \<lparr>currentQuestionIndex = 0, score = 0, questions = [], questionElement = [],
      answerButtons = [], nextButton_innerHTML = ''Next'', nextButton_display = ''none'',
      console = [], alerts = [], randomCalls = 0, fetchCalls = 0\<rparr>"

definition capital_record :: api_record where
  "capital_record =
     \<lparr>q_question = ''Capital of France?'', correct_answer = ''Paris'',
      incorrect_answers = [''Rome'', ''Oslo'', ''Bern'']\<rparr>"

definition planet_record :: api_record where
  "planet_record =
     \<lparr>q_question = ''The red planet?'', correct_answer = ''Mars'',
      incorrect_answers = [''Venus'', ''Pluto'']\<rparr>"

definition half :: draw where
  "half = Abs_draw (1 / 2)"

text \<open>
  A textarea on text without character references, a sequence of random values, and a
  session: the page after two questions have been fetched, after a click on the right
  answer of the first, after a click on the next button, after a click on a wrong answer
  of the second, and after the last click on the next button.
\<close>

definition plain :: "string \<Rightarrow> string" where
  "plain html = html"

definition draws :: "nat \<Rightarrow> draw" where
  "draws n = (if even n then Abs_draw (1 / 2) else Abs_draw 0)"

definition loaded_page :: state where
  "loaded_page =
     fetchQuestions plain draws (Response True (Json (Some [capital_record, planet_record])))
       blank_page"

definition answered_page :: state where
  "answered_page = dispatch plain draws (ClickAnswer 2) loaded_page"

definition second_page :: state where
  "second_page = dispatch plain draws ClickNext answered_page"

definition second_answered_page :: state where
  "second_answered_page = dispatch plain draws (ClickAnswer 0) second_page"

definition final_page :: state where
  "final_page = dispatch plain draws ClickNext second_answered_page"

text \<open>The finished page after a click on Play Again: the request is on its way.\<close>

definition replay_page :: state where
  "replay_page = dispatch plain draws ClickNext final_page"

text \<open>The two buttons of the script's own \<open>testSelectAnswer\<close>.\<close>

definition correctButton :: button where
  "correctButton =
     \<lparr>innerHTML = [], classList = [], dataset_correct = Some ''true'', disabled = False\<rparr>"

definition incorrectButton :: button where
  "incorrectButton =
     \<lparr>innerHTML = [], classList = [], dataset_correct = Some ''false'', disabled = False\<rparr>"

section \<open>Properties\<close>

subsection \<open>Helper lemmas\<close>

lemma remove_children_empty: "remove_children bs = []"
  by (induction bs) simp_all

lemma Rep_half: "Rep_draw half = 1 / 2"
  by (simp add: half_def Abs_draw_inverse)

lemma Rep_draws: "Rep_draw (Abs_draw (1 / 2)) = 1 / 2" "Rep_draw (Abs_draw 0) = 0"
  by (simp_all add: Abs_draw_inverse)

lemma resetState_eq:
  "resetState s = s\<lparr>nextButton_display := ''none'', answerButtons := []\<rparr>"
  by (simp add: resetState_def remove_children_empty)

lemma random_index_range:
  assumes "0 \<le> i"
  shows "0 \<le> random_index r i \<and> random_index r i \<le> i"
proof -
  have r: "0 \<le> Rep_draw r" "Rep_draw r < 1"
    using Rep_draw [of r] by simp_all
  have pos: "(0::real) < of_int (i + 1)"
    using assms by simp
  have lo: "0 \<le> Rep_draw r * of_int (i + 1)"
    using r(1) pos by simp
  have hi: "Rep_draw r * of_int (i + 1) < of_int (i + 1)"
    using r(2) pos by simp
  have "random_index r i < i + 1"
    unfolding random_index_def using hi by (simp only: floor_less_iff)
  moreover have "0 \<le> random_index r i"
    unfolding random_index_def using lo by simp
  ultimately show ?thesis by simp
qed

lemma mset_swap_in_range:
  assumes "nat i < length xs" "nat j < length xs"
  shows "mset (swap xs i j) = mset xs"
  unfolding swap_def using assms by (simp add: mset_swap)

lemma length_swap: "length (swap xs i j) = length xs"
  by (simp add: swap_def)

lemma shuffle_loop_stop: "i \<le> 0 \<Longrightarrow> shuffle_loop rnd i k xs = (xs, k)"
  by (subst shuffle_loop.simps) simp

lemma shuffle_loop_mset:
  "i < int (length xs) \<Longrightarrow> mset (fst (shuffle_loop rnd i k xs)) = mset xs"
proof (induction rnd i k xs rule: shuffle_loop.induct)
  case (1 rnd i k array)
  show ?case
  proof (cases "i > 0")
    case True
    let ?j = "random_index (rnd k) i"
    have j: "0 \<le> ?j" "?j \<le> i"
      using random_index_range [of i "rnd k"] True by simp_all
    have sw: "mset (swap array i ?j) = mset array"
      using True j "1.prems" by (intro mset_swap_in_range) auto
    have "mset (fst (shuffle_loop rnd (i - 1) (Suc k) (swap array i ?j))) = mset (swap array i ?j)"
      using "1.IH" [OF True refl] "1.prems" by (simp add: length_swap)
    then show ?thesis
      using True sw by (subst shuffle_loop.simps) (simp add: Let_def)
  next
    case False
    then show ?thesis by (simp add: shuffle_loop_stop)
  qed
qed

lemma shuffle_loop_calls: "snd (shuffle_loop rnd i k xs) = k + nat i"
proof (induction rnd i k xs rule: shuffle_loop.induct)
  case (1 rnd i k array)
  show ?case
  proof (cases "i > 0")
    case True
    then show ?thesis
      using "1.IH" [OF True refl]
      by (subst shuffle_loop.simps) (simp add: Let_def nat_diff_distrib)
  next
    case False
    then show ?thesis by (simp add: shuffle_loop_stop)
  qed
qed

lemma shuffleArray_mset: "mset (fst (shuffleArray rnd k xs)) = mset xs"
  unfolding shuffleArray_def by (rule shuffle_loop_mset) simp

lemma shuffleArray_length: "length (fst (shuffleArray rnd k xs)) = length xs"
  using shuffleArray_mset [of rnd k xs] by (metis size_mset)

lemma shuffleArray_short: "length xs \<le> 1 \<Longrightarrow> shuffleArray rnd k xs = (xs, k)"
  unfolding shuffleArray_def by (rule shuffle_loop_stop) simp

lemma shuffle_eval: "shuffleArray (\<lambda>n. half) 0 [10 :: int, 20, 30, 40] = ([10, 40, 20, 30], 3)"
  by (simp add: shuffleArray_def shuffle_loop.simps random_index_def Rep_half swap_def)

lemma count_correct_mset:
  "length (filter correct xs) = size (filter_mset correct (mset xs))"
  by (metis mset_filter size_mset)

lemma make_question_one_correct:
  "exactly_one_correct (fst (make_question textarea rnd k q))"
proof -
  define built where
    "built = \<lparr>answer_text = decodeHTML textarea (correct_answer q), correct = True\<rparr>
       # map (\<lambda>ans. \<lparr>answer_text = decodeHTML textarea ans, correct = False\<rparr>)
             (incorrect_answers q)"
  obtain shuffled k' where sh: "shuffleArray rnd k built = (shuffled, k')"
    by (cases "shuffleArray rnd k built")
  have "filter correct built
          = [\<lparr>answer_text = decodeHTML textarea (correct_answer q), correct = True\<rparr>]"
    unfolding built_def by (auto simp: filter_empty_conv)
  then have one: "length (filter correct built) = 1"
    by simp
  have "mset shuffled = mset built"
    using shuffleArray_mset [of rnd k built] sh by simp
  then have "length (filter correct shuffled) = length (filter correct built)"
    by (simp add: count_correct_mset)
  moreover have "answers (fst (make_question textarea rnd k q)) = shuffled"
    using sh by (simp add: make_question_def built_def)
  ultimately show ?thesis
    using one by (simp add: exactly_one_correct_def)
qed

lemma map_results_one_correct:
  "list_all exactly_one_correct (fst (map_results textarea rnd k results))"
proof (induction results arbitrary: k)
  case Nil
  then show ?case by simp
next
  case (Cons q qs)
  show ?case
    using make_question_one_correct [of textarea rnd k q] Cons.IH
    by (simp add: split_beta)
qed

lemma map_results_length:
  "length (fst (map_results textarea rnd k results)) = length results"
  by (induction results arbitrary: k) (simp_all add: split_beta)

lemma make_question_answers:
  "length (answers (fst (make_question textarea rnd k q))) = Suc (length (incorrect_answers q))"
  by (simp add: make_question_def split_beta shuffleArray_length)

lemma map_results_answers:
  "map (\<lambda>x. length (answers x)) (fst (map_results textarea rnd k results))
     = map (\<lambda>q. Suc (length (incorrect_answers q))) results"
  by (induction results arbitrary: k) (simp_all add: split_beta make_question_answers)

lemma showQuestion_state:
  "state_of (showQuestion s) =
     (case element_at (questions s) (currentQuestionIndex s) of
        None \<Rightarrow> s\<lparr>nextButton_display := ''none'', answerButtons := []\<rparr>
      | Some q \<Rightarrow>
          s\<lparr>nextButton_display := ''none'',
            questionElement := number_string (currentQuestionIndex s + 1) @ ''. '' @ question q,
            answerButtons := map answer_button (answers q)\<rparr>)"
  by (simp add: showQuestion_def resetState_eq Let_def split: option.splits)

lemma showQuestion_thrown:
  "thrown (showQuestion s) =
     (case element_at (questions s) (currentQuestionIndex s) of
        None \<Rightarrow> Some TypeError | Some q \<Rightarrow> None)"
  by (simp add: showQuestion_def resetState_eq Let_def split: option.splits)

lemma showQuestion_frame:
  "score (state_of (showQuestion s)) = score s"
  "questions (state_of (showQuestion s)) = questions s"
  "currentQuestionIndex (state_of (showQuestion s)) = currentQuestionIndex s"
  "nextButton_display (state_of (showQuestion s)) = ''none''"
  "nextButton_innerHTML (state_of (showQuestion s)) = nextButton_innerHTML s"
  by (simp_all add: showQuestion_state split: option.splits)

lemma showScore_eq:
  "showScore s =
     s\<lparr>nextButton_display := ''block'', answerButtons := [],
       questionElement := ''You scored '' @ number_string (score s) @ '' out of ''
                 @ digits_of (length (questions s)) @ ''!'',
       nextButton_innerHTML := ''Play Again''\<rparr>"
  by (simp add: showScore_def resetState_eq Let_def)

lemma handleNextButton_state:
  "state_of (handleNextButton s) =
     (if currentQuestionIndex s + 1 < int (length (questions s))
      then state_of (showQuestion (s\<lparr>currentQuestionIndex := currentQuestionIndex s + 1\<rparr>))
      else showScore (s\<lparr>currentQuestionIndex := currentQuestionIndex s + 1\<rparr>))"
  by (simp add: handleNextButton_def Let_def)

lemma handleNextButton_frame:
  "score (state_of (handleNextButton s)) = score s"
  "questions (state_of (handleNextButton s)) = questions s"
  "currentQuestionIndex (state_of (handleNextButton s)) = currentQuestionIndex s + 1"
  by (simp_all add: handleNextButton_state showQuestion_frame showScore_eq)

lemma lock_answers_frame:
  "score (lock_answers s) = score s"
  "questions (lock_answers s) = questions s"
  "currentQuestionIndex (lock_answers s) = currentQuestionIndex s"
  "nextButton_display (lock_answers s) = ''block''"
  "list_all disabled (answerButtons (lock_answers s))"
  "length (answerButtons (lock_answers s)) = length (answerButtons s)"
  by (simp_all add: lock_answers_def Let_def list_all_iff)

lemma put_target_frame:
  "score (put_target e b s) = score s"
  "questions (put_target e b s) = questions s"
  "currentQuestionIndex (put_target e b s) = currentQuestionIndex s"
  "length (answerButtons (put_target e b s)) = length (answerButtons s)"
  by (cases e; simp)+

lemma selectAnswer_frame:
  "questions (state_of (selectAnswer e s)) = questions s"
  "currentQuestionIndex (state_of (selectAnswer e s)) = currentQuestionIndex s"
  by (simp_all add: selectAnswer_def Let_def lock_answers_frame put_target_frame split: option.splits)

lemma selectAnswer_score:
  "score (state_of (selectAnswer e s)) =
     (case event_target e s of
        None \<Rightarrow> score s
      | Some b \<Rightarrow> if dataset_correct b = Some ''true'' then score s + 1 else score s)"
  by (simp add: selectAnswer_def Let_def lock_answers_frame put_target_frame split: option.splits)

lemma selectAnswer_thrown:
  "thrown (selectAnswer e s) = (case event_target e s of None \<Rightarrow> Some TypeError | Some b \<Rightarrow> None)"
  by (simp add: selectAnswer_def Let_def split: option.splits)

lemma selectAnswer_locks:
  "event_target e s \<noteq> None \<Longrightarrow>
     list_all disabled (answerButtons (state_of (selectAnswer e s)))
     \<and> nextButton_display (state_of (selectAnswer e s)) = ''block''"
  by (auto simp add: selectAnswer_def Let_def lock_answers_frame split: option.splits)

lemma startQuiz_frame:
  "score (state_of (startQuiz s)) = 0"
  "currentQuestionIndex (state_of (startQuiz s)) = 0"
  "questions (state_of (startQuiz s)) = questions s"
  "nextButton_display (state_of (startQuiz s)) = ''none''"
  by (simp_all add: startQuiz_def showQuestion_frame)

lemma startQuiz_thrown:
  "thrown (startQuiz s) = (if questions s = [] then Some TypeError else None)"
  by (simp add: startQuiz_def showQuestion_thrown element_at_def)

lemma fetchQuestions_questions:
  "questions (fetchQuestions textarea rnd r s)
     = questions (state_of (fetchQuestions_try textarea rnd r s))"
  by (cases "fetchQuestions_try textarea rnd r s") (simp_all add: fetchQuestions_def)

lemma fetchQuestions_try_results:
  "fetchQuestions_try textarea rnd (Response True (Json (Some results))) s
     = startQuiz (s\<lparr>questions := fst (map_results textarea rnd (randomCalls s) results),
                     randomCalls := snd (map_results textarea rnd (randomCalls s) results)\<rparr>)"
  by (simp add: fetchQuestions_try_def split_beta)

lemma inv_log:
  "session_inv (s\<lparr>console := c, alerts := a\<rparr>) = session_inv s"
  "session_inv (fetchQuestions_call s) = session_inv s"
  by (simp_all add: session_inv_def in_progress_def answeredCurrent_def locked_def
      fetchQuestions_call_def)

lemma inv_startQuiz: "session_inv (state_of (startQuiz s))"
  by (simp add: session_inv_def in_progress_def answeredCurrent_def locked_def
      startQuiz_def showQuestion_state element_at_def)

lemma inv_selectAnswer:
  assumes inv: "session_inv s"
    and i: "i < length (answerButtons s)"
    and en: "\<not> disabled (answerButtons s ! i)"
  shows "session_inv (state_of (selectAnswer (Child i) s))"
proof -
  let ?s' = "state_of (selectAnswer (Child i) s)"
  have ne: "answerButtons s \<noteq> []"
    using i by auto
  then have prog: "in_progress s"
    using inv by (auto simp add: session_inv_def split: if_splits)
  have "\<not> locked s"
    using i en by (auto simp add: locked_def list_all_length)
  then have low: "score s \<le> currentQuestionIndex s"
    using inv prog by (auto simp add: session_inv_def split: if_splits)
  have tgt: "event_target (Child i) s = Some (answerButtons s ! i)"
    using i by simp
  have sc: "score s \<le> score ?s'" "score ?s' \<le> score s + 1"
    by (simp_all add: selectAnswer_score tgt)
  have lk: "locked ?s'" "nextButton_display ?s' = ''block''"
    using selectAnswer_locks [of "Child i" s] tgt by (simp_all add: locked_def)
  have fr: "questions ?s' = questions s" "currentQuestionIndex ?s' = currentQuestionIndex s"
    by (simp_all add: selectAnswer_frame)
  show ?thesis
    using inv prog low sc lk fr
    by (simp add: session_inv_def in_progress_def answeredCurrent_def)
qed

lemma inv_click_answer:
  "session_inv s \<Longrightarrow> session_inv (state_of (click_answer i s))"
  by (auto simp add: click_answer_def inv_selectAnswer split: if_splits)

lemma inv_handleNextButton:
  assumes inv: "session_inv s" and prog: "in_progress s" and vis: "nextButton_display s = ''block''"
  shows "session_inv (state_of (handleNextButton s))"
proof -
  have sc: "score s \<le> currentQuestionIndex s + 1" "0 \<le> score s"
    using inv by (auto simp add: session_inv_def split: if_splits)
  have ix: "0 \<le> currentQuestionIndex s" "currentQuestionIndex s < int (length (questions s))"
    using prog by (simp_all add: in_progress_def)
  show ?thesis
    using sc ix
    by (auto simp add: session_inv_def handleNextButton_state showScore_eq showQuestion_state
        element_at_def in_progress_def answeredCurrent_def locked_def)
qed

lemma inv_click_next:
  assumes inv: "session_inv s"
  shows "session_inv (state_of (click_next s))"
proof (cases "nextButton_display s = ''none''")
  case True
  then show ?thesis using inv by (simp add: click_next_def)
next
  case False
  then have vis: "nextButton_display s = ''block''"
    using inv by (simp add: session_inv_def)
  show ?thesis
  proof (cases "currentQuestionIndex s < int (length (questions s))")
    case True
    then have "in_progress s"
      using inv by (simp add: in_progress_def session_inv_def)
    then show ?thesis
      using True False inv vis by (simp add: click_next_def nextButton_click_def inv_handleNextButton)
  next
    case nlt: False
    then show ?thesis
      using False inv by (simp add: click_next_def nextButton_click_def inv_log)
  qed
qed

lemma fetchQuestions_try_cases:
  "(fetch_fails r \<and> (\<exists>e. fetchQuestions_try textarea rnd r s = Throws e s))
   \<or> (\<not> fetch_fails r \<and> (\<exists>qs k. fetchQuestions_try textarea rnd r s
          = startQuiz (s\<lparr>questions := qs, randomCalls := k\<rparr>)))"
proof (cases r)
  case Rejected
  then show ?thesis by (simp add: fetchQuestions_try_def)
next
  case (Response ok b)
  show ?thesis
  proof (cases b)
    case NotJSON
    then show ?thesis using Response by (simp add: fetchQuestions_try_def)
  next
    case (Json res)
    then show ?thesis
      using Response by (cases res) (auto simp add: fetchQuestions_try_def split: prod.splits)
  qed
qed

lemma inv_fetchQuestions:
  assumes "session_inv s"
  shows "session_inv (fetchQuestions textarea rnd r s)"
proof -
  consider (fail) e where "fetchQuestions_try textarea rnd r s = Throws e s"
    | (ok) qs k where "fetchQuestions_try textarea rnd r s = startQuiz (s\<lparr>questions := qs, randomCalls := k\<rparr>)"
    using fetchQuestions_try_cases [of r textarea rnd s] by blast
  then show ?thesis
  proof cases
    case fail
    then show ?thesis using assms by (simp add: fetchQuestions_def inv_log)
  next
    case ok
    have "session_inv (state_of (startQuiz (s\<lparr>questions := qs, randomCalls := k\<rparr>)))"
      by (rule inv_startQuiz)
    then show ?thesis
      using ok by (cases "startQuiz (s\<lparr>questions := qs, randomCalls := k\<rparr>)")
        (simp_all add: fetchQuestions_def inv_log)
  qed
qed

lemma inv_dispatch: "session_inv s \<Longrightarrow> session_inv (dispatch textarea rnd e s)"
  by (cases e) (simp_all add: inv_click_answer inv_click_next inv_fetchQuestions)

lemma inv_started:
  assumes "fetchQuestions_try textarea rnd r s0 = Normal s"
  shows "session_inv s"
proof -
  consider (fail) e where "fetchQuestions_try textarea rnd r s0 = Throws e s0"
    | (ok) qs k where "fetchQuestions_try textarea rnd r s0 = startQuiz (s0\<lparr>questions := qs, randomCalls := k\<rparr>)"
    using fetchQuestions_try_cases [of r textarea rnd s0] by blast
  then show ?thesis
  proof cases
    case fail
    then show ?thesis using assms by simp
  next
    case ok
    then have "state_of (startQuiz (s0\<lparr>questions := qs, randomCalls := k\<rparr>)) = s"
      using assms by (metis state_of.simps(1))
    then show ?thesis
      using inv_startQuiz [of "s0\<lparr>questions := qs, randomCalls := k\<rparr>"] by simp
  qed
qed

lemma reachable_inv: "reachable textarea rnd s \<Longrightarrow> session_inv s"
  by (induction rule: reachable.induct) (simp_all add: inv_started inv_dispatch)



lemmas decode_defs =
  decodeHTML_def textarea_value_def reference_def named_references_def
  numeric_reference_def
  digit_value_def number_of_def utf8_def scalar_value_def Let_def char_of_def bit_Suc_0_iff

subsection \<open>The sample session, evaluated\<close>

lemmas eval_defs =
  fetchQuestions_def fetchQuestions_try_def make_question_def shuffleArray_def
  shuffle_loop.simps random_index_def Rep_draws swap_def decodeHTML_def capital_record_def
  planet_record_def plain_def draws_def startQuiz_def showQuestion_def resetState_eq
  blank_page_def element_at_def number_string_def digits_of.simps digit_def
  answer_button_def add_class_def Let_def click_answer_def click_next_def selectAnswer_def
  lock_answers_def nextButton_click_def handleNextButton_def showScore_def
  fetchQuestions_call_def

lemma loaded_page_eq:
  "loaded_page =
     \<lparr>currentQuestionIndex = 0, score = 0,
      questions =
        [\<lparr>question = ''Capital of France?'',
          answers = [\<lparr>answer_text = ''Bern'', correct = False\<rparr>,
                     \<lparr>answer_text = ''Rome'', correct = False\<rparr>,
                     \<lparr>answer_text = ''Paris'', correct = True\<rparr>,
                     \<lparr>answer_text = ''Oslo'', correct = False\<rparr>]\<rparr>,
         \<lparr>question = ''The red planet?'',
          answers = [\<lparr>answer_text = ''Pluto'', correct = False\<rparr>,
                     \<lparr>answer_text = ''Venus'', correct = False\<rparr>,
                     \<lparr>answer_text = ''Mars'', correct = True\<rparr>]\<rparr>],
      questionElement = ''1. Capital of France?'',
      answerButtons =
        [\<lparr>innerHTML = ''Bern'', classList = [''btn''], dataset_correct = None,
          disabled = False\<rparr>,
         \<lparr>innerHTML = ''Rome'', classList = [''btn''], dataset_correct = None,
          disabled = False\<rparr>,
         \<lparr>innerHTML = ''Paris'', classList = [''btn''], dataset_correct = Some ''true'',
          disabled = False\<rparr>,
         \<lparr>innerHTML = ''Oslo'', classList = [''btn''], dataset_correct = None,
          disabled = False\<rparr>],
      nextButton_innerHTML = ''Next'', nextButton_display = ''none'',
      console = [], alerts = [], randomCalls = 5, fetchCalls = 0\<rparr>"
  by (simp add: loaded_page_def eval_defs)

lemma answered_page_eq:
  "answered_page =
     loaded_page
       \<lparr>score := 1,
        answerButtons :=
          [\<lparr>innerHTML = ''Bern'', classList = [''btn''], dataset_correct = None,
            disabled = True\<rparr>,
           \<lparr>innerHTML = ''Rome'', classList = [''btn''], dataset_correct = None,
            disabled = True\<rparr>,
           \<lparr>innerHTML = ''Paris'', classList = [''btn'', ''correct''],
            dataset_correct = Some ''true'', disabled = True\<rparr>,
           \<lparr>innerHTML = ''Oslo'', classList = [''btn''], dataset_correct = None,
            disabled = True\<rparr>],
        nextButton_display := ''block''\<rparr>"
  by (simp add: answered_page_def loaded_page_eq eval_defs)

lemma second_page_eq:
  "second_page =
     loaded_page
       \<lparr>currentQuestionIndex := 1, score := 1,
        questionElement := ''2. The red planet?'',
        answerButtons :=
          [\<lparr>innerHTML = ''Pluto'', classList = [''btn''], dataset_correct = None,
            disabled = False\<rparr>,
           \<lparr>innerHTML = ''Venus'', classList = [''btn''], dataset_correct = None,
            disabled = False\<rparr>,
           \<lparr>innerHTML = ''Mars'', classList = [''btn''], dataset_correct = Some ''true'',
            disabled = False\<rparr>]\<rparr>"
  by (simp add: second_page_def answered_page_eq loaded_page_eq eval_defs)

lemma second_answered_page_eq:
  "second_answered_page =
     second_page
       \<lparr>answerButtons :=
          [\<lparr>innerHTML = ''Pluto'', classList = [''btn'', ''incorrect''],
            dataset_correct = None, disabled = True\<rparr>,
           \<lparr>innerHTML = ''Venus'', classList = [''btn''], dataset_correct = None,
            disabled = True\<rparr>,
           \<lparr>innerHTML = ''Mars'', classList = [''btn'', ''correct''],
            dataset_correct = Some ''true'', disabled = True\<rparr>],
        nextButton_display := ''block''\<rparr>"
  by (simp add: second_answered_page_def second_page_eq loaded_page_eq eval_defs)

lemma final_page_eq:
  "final_page =
     loaded_page
       \<lparr>currentQuestionIndex := 2, score := 1,
        questionElement := ''You scored 1 out of 2!'', answerButtons := [],
        nextButton_innerHTML := ''Play Again'', nextButton_display := ''block''\<rparr>"
  by (simp add: final_page_def second_answered_page_eq second_page_eq loaded_page_eq eval_defs)

lemma replay_page_eq: "replay_page = final_page\<lparr>fetchCalls := 1\<rparr>"
  by (simp add: replay_page_def final_page_eq loaded_page_eq eval_defs)

lemma loaded_page_started:
  "fetchQuestions_try plain draws (Response True (Json (Some [capital_record, planet_record])))
     blank_page = Normal loaded_page"
  by (simp add: loaded_page_eq eval_defs)

lemma reachable_loaded: "reachable plain draws loaded_page"
  using loaded_page_started by (rule reachable.started)

lemma reachable_answered: "reachable plain draws answered_page"
  unfolding answered_page_def using reachable_loaded by (rule reachable.step)

lemma reachable_final: "reachable plain draws final_page"
  unfolding final_page_def second_answered_page_def second_page_def
  using reachable_answered by (intro reachable.step)

lemma reachable_replay: "reachable plain draws replay_page"
  unfolding replay_page_def using reachable_final by (rule reachable.step)

subsection \<open>Selecting an answer\<close>

text \<open>
  C1, as the spec states it (a further \<open>selectAnswer\<close> call on an answered question
  changes nothing), fails: \<open>selectAnswer\<close> has no test of its own. On the sample page
  the first question is answered and the score is 1; a second call with the right
  answer's button returns normally and leaves the score at 2.
\<close>

theorem selectAnswer_again_counterexample:
  "in_progress answered_page \<and> answeredCurrent answered_page \<and> score answered_page = 1
   \<and> thrown (selectAnswer (Child 2) answered_page) = None
   \<and> score (state_of (selectAnswer (Child 2) answered_page)) = 2"
  by (simp add: answered_page_eq loaded_page_eq in_progress_def answeredCurrent_def
      selectAnswer_score selectAnswer_thrown)

text \<open>
  C1, amended: a \<open>selectAnswer\<close> call on an answered question, for any button of the
  page, raises nothing and leaves the index, the questions and the answered mark as
  they were, with every answer button disabled; the score grows by one when the
  button's \<open>dataset.correct\<close> is \<open>"true"\<close> and stays otherwise. The lock is the
  disabled buttons: once they are all disabled, a click on an answer button reaches no
  listener and the page stays exactly as it is.
\<close>

theorem selectAnswer_again:
  "answeredCurrent s \<and> i < length (answerButtons s) \<longrightarrow>
     thrown (selectAnswer (Child i) s) = None
     \<and> currentQuestionIndex (state_of (selectAnswer (Child i) s)) = currentQuestionIndex s
     \<and> questions (state_of (selectAnswer (Child i) s)) = questions s
     \<and> answeredCurrent (state_of (selectAnswer (Child i) s))
     \<and> locked (state_of (selectAnswer (Child i) s))
     \<and> score (state_of (selectAnswer (Child i) s))
         = (if dataset_correct (answerButtons s ! i) = Some ''true''
            then score s + 1 else score s)
     \<and> (locked s \<longrightarrow> click_answer i s = Normal s)"
proof (intro impI)
  assume a: "answeredCurrent s \<and> i < length (answerButtons s)"
  then have tgt: "event_target (Child i) s = Some (answerButtons s ! i)"
    by simp
  have lk: "locked (state_of (selectAnswer (Child i) s))"
    "answeredCurrent (state_of (selectAnswer (Child i) s))"
    using selectAnswer_locks [of "Child i" s] tgt by (simp_all add: locked_def answeredCurrent_def)
  have click: "locked s \<longrightarrow> click_answer i s = Normal s"
    using a by (simp add: click_answer_def locked_def list_all_length)
  show "thrown (selectAnswer (Child i) s) = None
     \<and> currentQuestionIndex (state_of (selectAnswer (Child i) s)) = currentQuestionIndex s
     \<and> questions (state_of (selectAnswer (Child i) s)) = questions s
     \<and> answeredCurrent (state_of (selectAnswer (Child i) s))
     \<and> locked (state_of (selectAnswer (Child i) s))
     \<and> score (state_of (selectAnswer (Child i) s))
         = (if dataset_correct (answerButtons s ! i) = Some ''true''
            then score s + 1 else score s)
     \<and> (locked s \<longrightarrow> click_answer i s = Normal s)"
    using a lk click
    by (simp add: selectAnswer_thrown selectAnswer_frame selectAnswer_score tgt)
qed

theorem selectAnswer_again_witness:
  "answeredCurrent answered_page \<and> locked answered_page
   \<and> thrown (selectAnswer (Child 1) answered_page) = None
   \<and> score (state_of (selectAnswer (Child 1) answered_page)) = score answered_page
   \<and> score (state_of (selectAnswer (Child 2) answered_page)) = score answered_page + 1
   \<and> click_answer 2 answered_page = Normal answered_page"
  using selectAnswer_again [of answered_page 1] selectAnswer_again [of answered_page 2]
  by (simp add: answered_page_eq loaded_page_eq answeredCurrent_def locked_def)

subsection \<open>The counters of a session\<close>

text \<open>
  C2, as the spec states it (\<open>score \<le> currentIndex\<close> in every state of a session),
  fails: the score is counted when the answer is selected, the index only when the next
  button is clicked. The sample page, one click into a fetched quiz, has score 1 at
  index 0.
\<close>

theorem score_bounds_counterexample:
  "reachable plain draws answered_page \<and> in_progress answered_page
   \<and> \<not> score answered_page \<le> currentQuestionIndex answered_page"
  using reachable_answered
  by (simp add: answered_page_eq loaded_page_eq in_progress_def)

text \<open>
  C2, amended: in every state reached from a started quiz by clicks on answer buttons,
  clicks on the next button and settled requests, \<open>0 \<le> score\<close>,
  \<open>0 \<le> currentQuestionIndex \<le> questions.length\<close> and
  \<open>score \<le> questions.length\<close>; the score is at most the index, plus one while the
  current question is answered and the next button has not been clicked.
\<close>

theorem score_bounds:
  assumes "reachable textarea rnd s"
  shows "0 \<le> score s
     \<and> score s \<le> currentQuestionIndex s + (if in_progress s \<and> answeredCurrent s then 1 else 0)
     \<and> 0 \<le> currentQuestionIndex s
     \<and> currentQuestionIndex s \<le> int (length (questions s))
     \<and> score s \<le> int (length (questions s))"
  using reachable_inv [OF assms]
  by (auto simp add: session_inv_def in_progress_def split: if_splits)


theorem score_bounds_witness:
  "reachable plain draws final_page
   \<and> score final_page = 1 \<and> currentQuestionIndex final_page = 2
   \<and> 0 \<le> score final_page \<and> score final_page \<le> currentQuestionIndex final_page
   \<and> score final_page \<le> int (length (questions final_page))"
  using score_bounds [OF reachable_final] reachable_final
  by (simp add: final_page_eq loaded_page_eq in_progress_def)

subsection \<open>Starting the quiz\<close>

text \<open>
  C3: \<open>startQuiz\<close> on an empty \<open>questions\<close> fails: it raises the TypeError of
  reading \<open>question\<close> of \<open>undefined\<close> (the script has no error class of its own;
  this is what the spec names EmptyBatchError), and the page is not in progress. On a
  non-empty \<open>questions\<close> it returns normally with score 0, index 0, the current
  question not answered, and the quiz in progress on these questions.
\<close>

theorem startQuiz_outcome:
  "(qs = [] \<longrightarrow>
      thrown (startQuiz (s\<lparr>questions := qs\<rparr>)) = Some TypeError
      \<and> \<not> in_progress (state_of (startQuiz (s\<lparr>questions := qs\<rparr>))))
   \<and> (qs \<noteq> [] \<longrightarrow>
      thrown (startQuiz (s\<lparr>questions := qs\<rparr>)) = None
      \<and> in_progress (state_of (startQuiz (s\<lparr>questions := qs\<rparr>)))
      \<and> questions (state_of (startQuiz (s\<lparr>questions := qs\<rparr>))) = qs
      \<and> score (state_of (startQuiz (s\<lparr>questions := qs\<rparr>))) = 0
      \<and> currentQuestionIndex (state_of (startQuiz (s\<lparr>questions := qs\<rparr>))) = 0
      \<and> \<not> answeredCurrent (state_of (startQuiz (s\<lparr>questions := qs\<rparr>))))"
  by (simp add: startQuiz_thrown startQuiz_frame in_progress_def answeredCurrent_def)

theorem startQuiz_outcome_witness:
  "thrown (startQuiz (answered_page\<lparr>questions := []\<rparr>)) = Some TypeError
   \<and> \<not> in_progress (state_of (startQuiz (answered_page\<lparr>questions := []\<rparr>)))
   \<and> questions loaded_page \<noteq> []
   \<and> thrown (startQuiz (answered_page\<lparr>questions := questions loaded_page\<rparr>)) = None
   \<and> score (state_of (startQuiz (answered_page\<lparr>questions := questions loaded_page\<rparr>))) = 0
   \<and> in_progress (state_of (startQuiz (answered_page\<lparr>questions := questions loaded_page\<rparr>)))"
  using startQuiz_outcome [of "[]" answered_page]
    startQuiz_outcome [of "questions loaded_page" answered_page]
  by (simp add: loaded_page_eq)

subsection \<open>The next button\<close>

text \<open>
  C4: when the quiz is in progress and the current question is answered, the click on
  the next button returns normally and adds exactly 1 to the index; if the new index is
  \<open>questions.length\<close> the quiz is finished (the button now reads Play Again),
  otherwise it is in progress on the next question, which is not answered and whose
  buttons are all enabled. When the index is not below \<open>questions.length\<close> the
  listener does not advance.
\<close>

theorem advance_step:
  "(in_progress s \<and> answeredCurrent s \<longrightarrow>
      thrown (nextButton_click s) = None
      \<and> currentQuestionIndex (state_of (nextButton_click s)) = currentQuestionIndex s + 1
      \<and> (if currentQuestionIndex s + 1 = int (length (questions s))
          then finished (state_of (nextButton_click s))
               \<and> nextButton_innerHTML (state_of (nextButton_click s)) = ''Play Again''
          else in_progress (state_of (nextButton_click s))
               \<and> \<not> answeredCurrent (state_of (nextButton_click s))
               \<and> list_all (\<lambda>b. \<not> disabled b) (answerButtons (state_of (nextButton_click s)))))
   \<and> (\<not> currentQuestionIndex s < int (length (questions s)) \<longrightarrow>
      currentQuestionIndex (state_of (nextButton_click s)) = currentQuestionIndex s
      \<and> \<not> in_progress s)"
proof (intro conjI impI)
  assume a: "in_progress s \<and> answeredCurrent s"
  then have lt: "currentQuestionIndex s < int (length (questions s))" and ge: "0 \<le> currentQuestionIndex s"
    by (simp_all add: in_progress_def)
  have click: "nextButton_click s = handleNextButton s"
    using lt by (simp add: nextButton_click_def)
  show "thrown (nextButton_click s) = None"
    using lt ge by (simp add: click handleNextButton_def Let_def showQuestion_thrown element_at_def)
  show "currentQuestionIndex (state_of (nextButton_click s)) = currentQuestionIndex s + 1"
    by (simp add: click handleNextButton_frame)
  show "if currentQuestionIndex s + 1 = int (length (questions s))
          then finished (state_of (nextButton_click s))
               \<and> nextButton_innerHTML (state_of (nextButton_click s)) = ''Play Again''
          else in_progress (state_of (nextButton_click s))
               \<and> \<not> answeredCurrent (state_of (nextButton_click s))
               \<and> list_all (\<lambda>b. \<not> disabled b) (answerButtons (state_of (nextButton_click s)))"
    using lt ge
    by (auto simp add: click handleNextButton_state showScore_eq finished_def in_progress_def
        answeredCurrent_def showQuestion_frame showQuestion_state element_at_def list_all_iff
        answer_button_def add_class_def Let_def)
next
  assume "\<not> currentQuestionIndex s < int (length (questions s))"
  then show "currentQuestionIndex (state_of (nextButton_click s)) = currentQuestionIndex s"
    by (simp add: nextButton_click_def fetchQuestions_call_def)
next
  assume "\<not> currentQuestionIndex s < int (length (questions s))"
  then show "\<not> in_progress s"
    by (simp add: in_progress_def)
qed


theorem advance_step_witness:
  "in_progress answered_page \<and> answeredCurrent answered_page
   \<and> currentQuestionIndex (state_of (nextButton_click answered_page)) = 1
   \<and> in_progress (state_of (nextButton_click answered_page))
   \<and> \<not> answeredCurrent (state_of (nextButton_click answered_page))
   \<and> in_progress second_answered_page \<and> answeredCurrent second_answered_page
   \<and> finished (state_of (nextButton_click second_answered_page))
   \<and> currentQuestionIndex (state_of (nextButton_click final_page)) = 2"
  using advance_step [of answered_page] advance_step [of second_answered_page]
    advance_step [of final_page]
  by (simp add: answered_page_eq second_answered_page_eq second_page_eq final_page_eq
      loaded_page_eq in_progress_def answeredCurrent_def)

text \<open>
  C10: \<open>handleNextButton\<close> and the listener of the next button leave \<open>score\<close> and
  \<open>questions\<close> as they are, in every state, and so do the functions they call
  (\<open>resetState\<close>, \<open>showQuestion\<close>, \<open>showScore\<close>). The score changes in two
  places only: \<open>selectAnswer\<close> keeps it or adds one, \<open>startQuiz\<close> sets it to 0.
\<close>

theorem advance_keeps_score:
  "score (state_of (handleNextButton s)) = score s
   \<and> questions (state_of (handleNextButton s)) = questions s
   \<and> score (state_of (nextButton_click s)) = score s
   \<and> questions (state_of (nextButton_click s)) = questions s
   \<and> score (resetState s) = score s
   \<and> score (state_of (showQuestion s)) = score s
   \<and> score (showScore s) = score s
   \<and> score s \<le> score (state_of (selectAnswer e s))
   \<and> score (state_of (selectAnswer e s)) \<le> score s + 1
   \<and> score (state_of (startQuiz s)) = 0"
  by (simp add: handleNextButton_frame nextButton_click_def fetchQuestions_call_def
      selectAnswer_score startQuiz_frame showQuestion_frame showScore_eq resetState_eq
      split: option.splits)

subsection \<open>Fetching the questions\<close>

text \<open>
  C5, as the spec states it (the fetch fails with one of two error kinds that the caller
  can tell apart), fails: \<open>fetchQuestions\<close> catches every error itself and returns
  normally. On the sample page a response with a failure status and a successful
  response whose body is not JSON (or has no \<open>results\<close>) leave the same alert and the
  same page; the two states differ in nothing but the error logged to the console.
\<close>

theorem fetchQuestions_failures_counterexample:
  "alerts (fetchQuestions plain draws (Response False NotJSON) answered_page)
     = alerts (fetchQuestions plain draws (Response True NotJSON) answered_page)
   \<and> (fetchQuestions plain draws (Response False NotJSON) answered_page)\<lparr>console := []\<rparr>
     = (fetchQuestions plain draws (Response True NotJSON) answered_page)\<lparr>console := []\<rparr>
   \<and> (fetchQuestions plain draws (Response False NotJSON) answered_page)\<lparr>console := []\<rparr>
     = (fetchQuestions plain draws (Response True (Json None)) answered_page)\<lparr>console := []\<rparr>"
  by (simp add: fetchQuestions_def fetchQuestions_try_def)

text \<open>
  C5, amended: \<open>fetchQuestions\<close> does not fail at its own boundary. Inside its
  \<open>try\<close> block a response whose \<open>ok\<close> is false raises the script's
  \<open>Error('Failed to fetch questions.')\<close>, a body that is not JSON a SyntaxError and a
  body without a \<open>results\<close> list a TypeError; the \<open>catch\<close> clause logs that error
  to the console and shows the same alert for every kind. In each of these cases no
  questions are produced: the state after the call is the state before it with the
  error appended to the console and the message to the alerts. The kinds differ only in
  the error logged.
\<close>

theorem fetchQuestions_failures:
  "fetchQuestions_try textarea rnd (Response False b) s
     = Throws (Error ''Failed to fetch questions.'') s
   \<and> fetchQuestions_try textarea rnd (Response True NotJSON) s = Throws SyntaxError s
   \<and> fetchQuestions_try textarea rnd (Response True (Json None)) s = Throws TypeError s
   \<and> fetchQuestions textarea rnd (Response False b) s
       = s\<lparr>console := console s @ [Error ''Failed to fetch questions.''],
           alerts := alerts s @ [''Could not load questions. Please try again later.'']\<rparr>
   \<and> fetchQuestions textarea rnd (Response True NotJSON) s
       = s\<lparr>console := console s @ [SyntaxError],
           alerts := alerts s @ [''Could not load questions. Please try again later.'']\<rparr>
   \<and> fetchQuestions textarea rnd (Response True (Json None)) s
       = s\<lparr>console := console s @ [TypeError],
           alerts := alerts s @ [''Could not load questions. Please try again later.'']\<rparr>"
  by (simp add: fetchQuestions_try_def fetchQuestions_def)

text \<open>
  C6: a fetch that fails must leave \<open>questions\<close>, \<open>currentQuestionIndex\<close> and
  \<open>score\<close> as they were. The script does not, when the response is successful and
  its \<open>results\<close> list is empty: on the finished sample page (score 1, two
  questions, Play Again shown and clicked) the \<open>try\<close> block throws, the failure
  alert is shown, and yet \<open>questions\<close> is now empty, the score is 0, the index is 0
  and the next button is hidden. The assignment to \<open>questions\<close> and \<open>startQuiz\<close>
  run before \<open>showQuestion\<close> reads \<open>questions[0]\<close>.
\<close>

theorem empty_batch_partly_applied:
  "reachable plain draws replay_page
   \<and> thrown (fetchQuestions_try plain draws (Response True (Json (Some []))) replay_page)
       = Some TypeError
   \<and> alerts (fetchQuestions plain draws (Response True (Json (Some []))) replay_page)
       = [''Could not load questions. Please try again later.'']
   \<and> length (questions replay_page) = 2
   \<and> questions (fetchQuestions plain draws (Response True (Json (Some []))) replay_page) = []
   \<and> score replay_page = 1
   \<and> score (fetchQuestions plain draws (Response True (Json (Some []))) replay_page) = 0
   \<and> currentQuestionIndex replay_page = 2
   \<and> currentQuestionIndex
        (fetchQuestions plain draws (Response True (Json (Some []))) replay_page) = 0
   \<and> nextButton_display replay_page = ''block''
   \<and> nextButton_display
        (fetchQuestions plain draws (Response True (Json (Some []))) replay_page) = ''none''"
  using reachable_replay
  by (simp add: replay_page_eq final_page_eq loaded_page_eq fetchQuestions_def
      fetchQuestions_try_def startQuiz_def showQuestion_def resetState_eq element_at_def)

text \<open>
  The other failures are not applied at all: when the request is rejected, its status
  is not a success, its body is not JSON or has no \<open>results\<close> list,
  \<open>fetchQuestions\<close> leaves \<open>questions\<close>, \<open>currentQuestionIndex\<close> and
  \<open>score\<close> as they were, and with them everything the page shows; only the console
  and the alert record the failure.
\<close>

theorem failed_fetch_frame:
  "fetch_fails r \<longrightarrow>
      thrown (fetchQuestions_try textarea rnd r s) \<noteq> None
      \<and> questions (fetchQuestions textarea rnd r s) = questions s
      \<and> currentQuestionIndex (fetchQuestions textarea rnd r s) = currentQuestionIndex s
      \<and> score (fetchQuestions textarea rnd r s) = score s
      \<and> answerButtons (fetchQuestions textarea rnd r s) = answerButtons s
      \<and> questionElement (fetchQuestions textarea rnd r s) = questionElement s
      \<and> nextButton_display (fetchQuestions textarea rnd r s) = nextButton_display s
      \<and> nextButton_innerHTML (fetchQuestions textarea rnd r s) = nextButton_innerHTML s
      \<and> alerts (fetchQuestions textarea rnd r s)
          = alerts s @ [''Could not load questions. Please try again later.'']"
proof (rule impI)
  assume "fetch_fails r"
  then obtain e where e: "fetchQuestions_try textarea rnd r s = Throws e s"
    using fetchQuestions_try_cases [of r textarea rnd s] by blast
  then show "thrown (fetchQuestions_try textarea rnd r s) \<noteq> None
      \<and> questions (fetchQuestions textarea rnd r s) = questions s
      \<and> currentQuestionIndex (fetchQuestions textarea rnd r s) = currentQuestionIndex s
      \<and> score (fetchQuestions textarea rnd r s) = score s
      \<and> answerButtons (fetchQuestions textarea rnd r s) = answerButtons s
      \<and> questionElement (fetchQuestions textarea rnd r s) = questionElement s
      \<and> nextButton_display (fetchQuestions textarea rnd r s) = nextButton_display s
      \<and> nextButton_innerHTML (fetchQuestions textarea rnd r s) = nextButton_innerHTML s
      \<and> alerts (fetchQuestions textarea rnd r s)
          = alerts s @ [''Could not load questions. Please try again later.'']"
    by (simp add: fetchQuestions_def)
qed

theorem failed_fetch_frame_witness:
  "fetch_fails (Response False NotJSON)
   \<and> score (fetchQuestions plain draws (Response False NotJSON) answered_page) = 1
   \<and> questions (fetchQuestions plain draws (Response False NotJSON) answered_page)
       = questions loaded_page
   \<and> currentQuestionIndex (fetchQuestions plain draws (Response False NotJSON) answered_page) = 0
   \<and> alerts (fetchQuestions plain draws (Response False NotJSON) answered_page)
       = [''Could not load questions. Please try again later.'']"
  using failed_fetch_frame [of "Response False NotJSON" plain draws answered_page]
  by (simp add: answered_page_eq loaded_page_eq)

subsection \<open>Decoding\<close>



text \<open>
  Numeric references, and what is left alone: the \<open>&#039;\<close> of the question bank
  becomes an apostrophe and \<open>&#x41;\<close> an A; a name outside the table, an empty
  number and the rest of a decoded \<open>&amp;\<close> stay as they are.
\<close>

theorem decodeHTML_numeric:
  "decodeHTML textarea_value ''Don&#039;t &#x41;T&T &bogus; &#; &amp;lt;''
     = ''Don'' @ [CHR 0x27] @ ''t AT&T &bogus; &#; &lt;''"
  by (simp add: decode_defs)

text \<open>
  C8: every question \<open>fetchQuestions\<close> builds from a record of the response has
  exactly one answer whose \<open>correct\<close> is true, whatever \<open>Math.random()\<close> returns and
  whatever the textarea decodes: the list is the right answer marked true followed by
  the wrong answers marked false, and the shuffle keeps the elements. These questions
  are the ones \<open>fetchQuestions\<close> stores in \<open>questions\<close>.
\<close>

theorem questions_exactly_one_correct:
  "list_all exactly_one_correct (fst (map_results textarea rnd k results))
   \<and> questions (fetchQuestions textarea rnd (Response True (Json (Some results))) s)
       = fst (map_results textarea rnd (randomCalls s) results)
   \<and> list_all exactly_one_correct
        (questions (fetchQuestions textarea rnd (Response True (Json (Some results))) s))"
  by (simp add: map_results_one_correct fetchQuestions_questions fetchQuestions_try_results
      startQuiz_frame)

subsection \<open>Further properties\<close>

text \<open>
  The script's own \<open>testSelectAnswer\<close>: a call with a detached button whose
  \<open>dataset.correct\<close> is \<open>"true"\<close> adds one to the score, a following call with one
  whose \<open>dataset.correct\<close> is \<open>"false"\<close> leaves it; from the score 0 of the loaded
  script both assertions of the test hold.
\<close>

theorem testSelectAnswer_passes:
  "score (state_of (selectAnswer (Detached correctButton) s)) = score s + 1
   \<and> score (state_of (selectAnswer (Detached incorrectButton) s)) = score s
   \<and> score (state_of (selectAnswer (Detached correctButton) blank_page)) = 1
   \<and> score (state_of (selectAnswer (Detached incorrectButton)
        (state_of (selectAnswer (Detached correctButton) blank_page)))) = 1"
  by (simp add: selectAnswer_score correctButton_def incorrectButton_def blank_page_def)

text \<open>
  The scenario of two questions: the right answer to the first gives score 1 and marks
  it answered; a further click on that answer is not dispatched; the next button leads
  to the second question, not answered; a wrong answer leaves the score; the next
  button ends the quiz with "You scored 1 out of 2!".
\<close>

theorem two_question_session:
  "score answered_page = 1 \<and> answeredCurrent answered_page
   \<and> dispatch plain draws (ClickAnswer 2) answered_page = answered_page
   \<and> currentQuestionIndex second_page = 1 \<and> \<not> answeredCurrent second_page
   \<and> score second_answered_page = 1 \<and> answeredCurrent second_answered_page
   \<and> finished final_page \<and> score final_page = 1
   \<and> questionElement final_page = ''You scored 1 out of 2!''"
  by (simp add: answered_page_eq second_page_eq second_answered_page_eq final_page_eq
      loaded_page_eq answeredCurrent_def finished_def click_answer_def)

text \<open>
  \<open>fetchQuestions\<close> builds one question for each record of the response, in order,
  and each question has one answer for the right answer and one for every wrong answer
  of its record.
\<close>

theorem one_question_per_record:
  "length (fst (map_results textarea rnd k results)) = length results
   \<and> map (\<lambda>x. length (answers x)) (fst (map_results textarea rnd k results))
       = map (\<lambda>q. Suc (length (incorrect_answers q))) results
   \<and> snd (make_question textarea rnd k q) = k + length (incorrect_answers q)"
  by (simp add: map_results_length map_results_answers make_question_def split_beta
      shuffleArray_def shuffle_loop_calls)

text \<open>
  An empty \<open>results\<close> list is not a failed request: \<open>fetchQuestions\<close> stores the
  empty list and resets the counters before \<open>showQuestion\<close> throws, so the previous
  session is gone, the failure is logged and alerted, and the page is left without
  answer buttons and with the next button hidden.
\<close>

theorem empty_batch_replaces_session:
  "questions (fetchQuestions textarea rnd (Response True (Json (Some []))) s) = []
   \<and> score (fetchQuestions textarea rnd (Response True (Json (Some []))) s) = 0
   \<and> currentQuestionIndex (fetchQuestions textarea rnd (Response True (Json (Some []))) s) = 0
   \<and> answerButtons (fetchQuestions textarea rnd (Response True (Json (Some []))) s) = []
   \<and> nextButton_display (fetchQuestions textarea rnd (Response True (Json (Some []))) s) = ''none''
   \<and> console (fetchQuestions textarea rnd (Response True (Json (Some []))) s)
       = console s @ [TypeError]
   \<and> alerts (fetchQuestions textarea rnd (Response True (Json (Some []))) s)
       = alerts s @ [''Could not load questions. Please try again later.'']"
  by (simp add: fetchQuestions_def fetchQuestions_try_def startQuiz_def showQuestion_def
      resetState_eq element_at_def)

subsection \<open>The shuffle\<close>

text \<open>
  C7: for every array and every sequence of values of \<open>Math.random()\<close>,
  \<open>shuffleArray\<close> returns an array with the same elements, each as often as before,
  and of the same length; an array of length 0 or 1 comes back as it was, with no
  random value drawn. The index \<open>j\<close> the loop swaps position \<open>i\<close> with lies in
  \<open>[0, i]\<close>, so the loop is the Fisher-Yates shuffle, running \<open>i\<close> from
  \<open>length - 1\<close> down to 1. The array is updated in place: the model returns the
  updated array.
\<close>

theorem shuffleArray_permutes:
  "mset (fst (shuffleArray rnd k array)) = mset array
   \<and> length (fst (shuffleArray rnd k array)) = length array
   \<and> (length array \<le> 1 \<longrightarrow> shuffleArray rnd k array = (array, k))
   \<and> (0 \<le> i \<longrightarrow> 0 \<le> random_index (rnd k) i \<and> random_index (rnd k) i \<le> i)"
  using shuffleArray_mset [of rnd k array] shuffleArray_length [of rnd k array]
    shuffleArray_short [of array rnd k] random_index_range [of i "rnd k"]
  by blast

theorem shuffleArray_permutes_witness:
  "mset (fst (shuffleArray (\<lambda>n. half) 0 [10 :: int, 20, 30, 40])) = mset [10, 20, 30, 40]
   \<and> fst (shuffleArray (\<lambda>n. half) 0 [10 :: int, 20, 30, 40]) = [10, 40, 20, 30]
   \<and> shuffleArray (\<lambda>n. half) 5 [7 :: nat] = ([7], 5)
   \<and> shuffleArray (\<lambda>n. half) 5 ([] :: nat list) = ([], 5)
   \<and> random_index half 3 = 2"
  using shuffleArray_permutes [of "\<lambda>n. half" 0 "[10 :: int, 20, 30, 40]" 3]
    shuffleArray_permutes [of "\<lambda>n. half" 5 "[7 :: nat]" 0]
    shuffleArray_permutes [of "\<lambda>n. half" 5 "[] :: nat list" 0]
  by (simp add: shuffle_eval random_index_def Rep_half)

end
